theory Spec2Isabelle
  imports Main "HOL-Library.Sublist" "HOL-Library.Word"
begin

section \<open>Values the scripts handle\<close>

text \<open>
  The scripts are Python and dynamically typed. What a remote call hands back is the decoded
  JSON body of the response, so a response body is a value of \<open>json\<close>. A Python float is
  kept as its 64-bit pattern: the scripts only ever ask whether it is zero. A decoded object
  is an association list read with \<open>map_of\<close>.
\<close>

datatype json =
    JNull
  | JBool bool
  | JInt int
  | JFloat "64 word"
  | JStr string
  | JArr "json list"
  | JObj "(string \<times> json) list"

datatype pytype = TNone | TBool | TInt | TFloat | TStr | TList | TDict

fun type_of :: "json \<Rightarrow> pytype" where
  "type_of JNull = TNone"
| "type_of (JBool b) = TBool"
| "type_of (JInt i) = TInt"
| "type_of (JFloat w) = TFloat"
| "type_of (JStr s) = TStr"
| "type_of (JArr xs) = TList"
| "type_of (JObj kvs) = TDict"

text \<open>
  Exceptions deriving from Python's \<open>Exception\<close>: the client library's \<open>HttpError\<close> with the
  status of \<open>e.resp.status\<close> and the text of \<open>str(e)\<close>, the errors the interpreter raises when
  a script subscripts or searches a value of the wrong shape, and any other error a library
  call raises (with its text). Every handler of the scripts is \<open>except HttpError\<close> or
  \<open>except Exception\<close>; interpreter exits (\<open>KeyboardInterrupt\<close>, \<open>SystemExit\<close>) are not
  responses of a remote call and are not modelled.
\<close>

datatype exn =
    HttpError int string
  | KeyError json
  | IndexError pytype
  | TypeError_not_iterable pytype
  | TypeError_indices pytype pytype
  | TypeError_not_subscriptable pytype
  | OtherException string

text \<open>Truth value of a decoded body, as \<open>if v:\<close> tests it.\<close>

fun py_bool :: "json \<Rightarrow> bool" where
  "py_bool JNull = False"
| "py_bool (JBool b) = b"
| "py_bool (JInt i) = (i \<noteq> 0)"
| "py_bool (JFloat w) = (take_bit 63 w \<noteq> 0)"
| "py_bool (JStr s) = (s \<noteq> [])"
| "py_bool (JArr xs) = (xs \<noteq> [])"
| "py_bool (JObj kvs) = (kvs \<noteq> [])"

fun str_contains :: "string \<Rightarrow> string \<Rightarrow> bool" where
  "str_contains k [] = (k = [])"
| "str_contains k (c # cs) = (prefix k (c # cs) \<or> str_contains k cs)"

text \<open>\<open>k in v\<close> for a string \<open>k\<close>: a key of a dict, an element of a list, a substring of a str.\<close>

fun py_in :: "string \<Rightarrow> json \<Rightarrow> exn + bool" where
  "py_in k (JObj kvs) = Inr (k \<in> set (map fst kvs))"
| "py_in k (JArr xs) = Inr (JStr k \<in> set xs)"
| "py_in k (JStr s) = Inr (str_contains k s)"
| "py_in k v = Inl (TypeError_not_iterable (type_of v))"

text \<open>\<open>v[k]\<close> for a string \<open>k\<close>.\<close>

fun py_getitem_str :: "json \<Rightarrow> string \<Rightarrow> exn + json" where
  "py_getitem_str (JObj kvs) k =
     (case map_of kvs k of None \<Rightarrow> Inl (KeyError (JStr k)) | Some v \<Rightarrow> Inr v)"
| "py_getitem_str (JArr xs) k = Inl (TypeError_indices TList TStr)"
| "py_getitem_str (JStr s) k = Inl (TypeError_indices TStr TStr)"
| "py_getitem_str v k = Inl (TypeError_not_subscriptable (type_of v))"

text \<open>
  \<open>v[i]\<close> for an integer \<open>i\<close>: a negative index counts from the end, an index out of range
  raises. The keys of a decoded object are strings, so an integer is never among them.
\<close>

definition seq_index :: "'a list \<Rightarrow> int \<Rightarrow> 'a option" where
  "seq_index xs i =
     (let n = int (length xs); j = (if i < 0 then n + i else i)
      in if 0 \<le> j \<and> j < n then Some (xs ! nat j) else None)"

fun py_getitem_int :: "json \<Rightarrow> int \<Rightarrow> exn + json" where
  "py_getitem_int (JObj kvs) i = Inl (KeyError (JInt i))"
| "py_getitem_int (JArr xs) i =
     (case seq_index xs i of None \<Rightarrow> Inl (IndexError TList) | Some v \<Rightarrow> Inr v)"
| "py_getitem_int (JStr s) i =
     (case seq_index s i of None \<Rightarrow> Inl (IndexError TStr) | Some c \<Rightarrow> Inr (JStr [c]))"
| "py_getitem_int v i = Inl (TypeError_not_subscriptable (type_of v))"

section \<open>The world outside a script\<close>

text \<open>
  The remote service is reached through \<open>execute()\<close> on a request. A request is one of the
  calls below, with its \<open>packageName\<close> (and, for a commit, its \<open>editId\<close> first). The service
  may keep state of its own, of any type \<open>'s\<close>: a call takes the state and returns the
  response with the new state.
\<close>

datatype call =
    EditsList string
  | EditsInsert string
  | EditsGet string
  | EditsCommit json string
  | ReviewsList string

type_synonym response = "exn + json"

type_synonym 's remote = "call \<Rightarrow> 's \<Rightarrow> response \<times> 's"

record credentials =
  service_account_email :: string

text \<open>
  What the scripts take from the file system and from libraries: \<open>os.path.exists\<close>,
  \<open>Credentials.from_service_account_file\<close> (at the one scope the scripts ask for), \<open>build\<close>,
  and the text Python makes of a value: \<open>str(e)\<close> of a caught exception, \<open>str(v)\<close> of a decoded
  body inside an f-string, \<open>str(xs)\<close> of a list of strings, \<open>json.dumps(v, indent=2)\<close>.
\<close>

record host =
  os_path_exists :: "string \<Rightarrow> bool"
  from_service_account_file :: "string \<Rightarrow> exn + credentials"
  build :: "credentials \<Rightarrow> exn + unit"
  str_exc :: "exn \<Rightarrow> string"
  str_val :: "json \<Rightarrow> string"
  str_list :: "string list \<Rightarrow> string"
  json_dumps :: "json \<Rightarrow> string"

text \<open>
  What a run does, in order: a line handed to \<open>print\<close> (the text before the newline that
  \<open>print\<close> adds, in UTF-8), or a remote call with its response.
\<close>

datatype event = Print string | Call call response

fun stdout :: "event list \<Rightarrow> string list" where
  "stdout [] = []"
| "stdout (Print l # es) = l # stdout es"
| "stdout (Call c r # es) = stdout es"

fun trace :: "event list \<Rightarrow> (call \<times> response) list" where
  "trace [] = []"
| "trace (Print l # es) = trace es"
| "trace (Call c r # es) = (c, r) # trace es"

definition calls :: "event list \<Rightarrow> call list" where
  "calls es = map fst (trace es)"

definition responses :: "event list \<Rightarrow> response list" where
  "responses es = map snd (trace es)"

text \<open>The characters of the scripts' messages outside ASCII, in UTF-8.\<close>

definition check_mark :: string where
  "check_mark = [CHR 0xE2, CHR 0x9C, CHR 0x85]"

definition cross_mark :: string where
  "cross_mark = [CHR 0xE2, CHR 0x9D, CHR 0x8C]"

definition warning_sign :: string where
  "warning_sign = [CHR 0xE2, CHR 0x9A, CHR 0xA0, CHR 0xEF, CHR 0xB8, CHR 0x8F]"

definition party_popper :: string where
  "party_popper = [CHR 0xF0, CHR 0x9F, CHR 0x8E, CHR 0x89]"

definition newline :: string where
  "newline = [CHR 0x0A]"

definition quote :: string where
  "quote = [CHR 0x27]"

text \<open>
  Loading the credentials and building the client stand outside every \<open>try\<close>: an exception
  of either ends the script.
\<close>

definition load_service :: "host \<Rightarrow> string \<Rightarrow> exn + credentials" where
  "load_service H path =
     (case from_service_account_file H path of
        Inl e \<Rightarrow> Inl e
      | Inr cr \<Rightarrow> (case build H cr of Inl e \<Rightarrow> Inl e | Inr u \<Rightarrow> Inr cr))"

definition measurebowl_credentials :: string where
  "measurebowl_credentials = ''../../fastlane/measurebowl-credentials.json''"

section \<open>test_package.py\<close>

definition package_variations :: "string list" where
  "package_variations =
     [''com.measurebowl.app'',
      ''com.measurebowl'',
      ''com.dojo.measurebowl'',
      ''com.julian.measurebowl'',
      ''com.gilbertroberts.measurebowl'',
      ''com.kickybreaks.measurebowl'',
      ''com.dojo.lawnbowls'',
      ''com.measurebowl.lawnbowls'',
      ''com.lawnbowls.measurebowl'']"

text \<open>The body of the \<open>try\<close>: \<open>Inr\<close> is the \<open>return package_name\<close>, \<open>Inl\<close> an exception raised.\<close>

definition test_package_try ::
  "host \<Rightarrow> 's remote \<Rightarrow> string \<Rightarrow> 's \<Rightarrow> (exn + string) \<times> event list \<times> 's" where
  "test_package_try H R p s =
     (case R (EditsInsert p) s of
        (Inl e, s') \<Rightarrow> (Inl e, [Call (EditsInsert p) (Inl e)], s')
      | (Inr edit, s') \<Rightarrow>
          (case py_getitem_str edit ''id'' of
             Inl e \<Rightarrow>
               (Inl e,
                [Call (EditsInsert p) (Inr edit),
                 Print (check_mark @ '' FOUND: Package '' @ p @ '' exists!'')], s')
           | Inr i \<Rightarrow>
               (Inr p,
                [Call (EditsInsert p) (Inr edit),
                 Print (check_mark @ '' FOUND: Package '' @ p @ '' exists!''),
                 Print (''Edit ID: '' @ str_val H i)], s')))"

text \<open>The two handlers: \<open>except HttpError\<close>, then \<open>except Exception\<close>.\<close>

fun test_package_except :: "host \<Rightarrow> string \<Rightarrow> exn \<Rightarrow> string" where
  "test_package_except H p (HttpError status msg) =
     (if status = 404 then cross_mark @ '' Package '' @ p @ '' not found''
      else warning_sign @ ''  Error testing '' @ p @ '': '' @ str_exc H (HttpError status msg))"
| "test_package_except H p e = warning_sign @ ''  Error testing '' @ p @ '': '' @ str_exc H e"

fun test_package_loop ::
  "host \<Rightarrow> 's remote \<Rightarrow> string list \<Rightarrow> 's \<Rightarrow> string option \<times> event list \<times> 's" where
  "test_package_loop H R [] s = (None, [], s)"
| "test_package_loop H R (p # ps) s =
     (case test_package_try H R p s of
        (Inr name, es, s') \<Rightarrow> (Some name, es, s')
      | (Inl e, es, s') \<Rightarrow>
          (case test_package_loop H R ps s' of
             (r, es', s'') \<Rightarrow> (r, es @ Print (test_package_except H p e) # es', s'')))"

definition test_package_variations_with ::
  "string list \<Rightarrow> host \<Rightarrow> 's remote \<Rightarrow> 's \<Rightarrow> (exn + string option) \<times> event list \<times> 's" where
  "test_package_variations_with variations H R s =
     (case load_service H measurebowl_credentials of
        Inl e \<Rightarrow> (Inl e, [], s)
      | Inr cr \<Rightarrow>
          (case test_package_loop H R variations s of
             (Some name, es, s') \<Rightarrow>
               (Inr (Some name), Print ''Testing common package name variations...'' # es, s')
           | (None, es, s') \<Rightarrow>
               (Inr None,
                Print ''Testing common package name variations...'' # es @
                [Print (newline @ cross_mark @ '' None of the common variations were found.''),
                 Print (''You'' @ quote @ ''ll need to check the exact package name in Google Play Console.'')],
                s')))"

definition test_package_variations ::
  "host \<Rightarrow> 's remote \<Rightarrow> 's \<Rightarrow> (exn + string option) \<times> event list \<times> 's" where
  "test_package_variations = test_package_variations_with package_variations"

section \<open>test_example_package.py\<close>

definition example_package :: string where
  "example_package = ''com.example.measurebowl''"

text \<open>The body of the \<open>try\<close>: \<open>Inr\<close> is the \<open>return True\<close>.\<close>

definition test_example_try ::
  "host \<Rightarrow> 's remote \<Rightarrow> string \<Rightarrow> 's \<Rightarrow> (exn + bool) \<times> event list \<times> 's" where
  "test_example_try H R p s =
     (case R (EditsInsert p) s of
        (Inl e, s') \<Rightarrow> (Inl e, [Call (EditsInsert p) (Inl e)], s')
      | (Inr edit, s') \<Rightarrow>
          (case py_getitem_str edit ''id'' of
             Inl e \<Rightarrow>
               (Inl e,
                [Call (EditsInsert p) (Inr edit),
                 Print (''SUCCESS: Package '' @ p @ '' exists!'')], s')
           | Inr i \<Rightarrow>
               (Inr True,
                [Call (EditsInsert p) (Inr edit),
                 Print (''SUCCESS: Package '' @ p @ '' exists!''),
                 Print (''Edit ID: '' @ str_val H i)], s')))"

text \<open>The handlers; each ends in \<open>return False\<close>.\<close>

fun test_example_except :: "host \<Rightarrow> string \<Rightarrow> exn \<Rightarrow> event list" where
  "test_example_except H p (HttpError status msg) =
     (if status = 404 then
        [Print (''ERROR: Package '' @ p @ '' not found''),
         Print ''This means either:'',
         Print (''1. The app wasn'' @ quote @ ''t created with this package name''),
         Print (''2. The service account doesn'' @ quote @ ''t have access to this app'')]
      else [Print (''ERROR: '' @ str_exc H (HttpError status msg))])"
| "test_example_except H p e = [Print (''ERROR: '' @ str_exc H e)]"

definition test_example_package ::
  "host \<Rightarrow> 's remote \<Rightarrow> 's \<Rightarrow> (exn + bool) \<times> event list \<times> 's" where
  "test_example_package H R s =
     (case load_service H measurebowl_credentials of
        Inl e \<Rightarrow> (Inl e, [], s)
      | Inr cr \<Rightarrow>
          (case test_example_try H R example_package s of
             (Inr b, es, s') \<Rightarrow>
               (Inr b, Print (''Testing access to package: '' @ example_package) # es, s')
           | (Inl e, es, s') \<Rightarrow>
               (Inr False,
                Print (''Testing access to package: '' @ example_package) # es @
                test_example_except H example_package e, s')))"

section \<open>find_package.py\<close>

text \<open>The probe methods, each with the name the script prints for it.\<close>

definition methods :: "(string \<times> (string \<Rightarrow> call)) list" where
  "methods =
     [(''edits().list()'', EditsList),
      (''edits().insert()'', EditsInsert),
      (''reviews().list()'', ReviewsList)]"

definition package_patterns :: "string list" where
  "package_patterns =
     [''com.example.measurebowl'',
      ''com.dojo.measurebowl'',
      ''com.measurebowl.app'',
      ''com.measurebowl'',
      ''com.lawnbowls.measurebowl'',
      ''com.julian.measurebowl'',
      ''com.gilbertroberts.measurebowl'',
      ''com.kickybreaks.measurebowl'']"

text \<open>The two handlers of the inner loop: \<open>except HttpError\<close>, then \<open>except Exception\<close>.\<close>

fun find_package_except :: "host \<Rightarrow> string \<Rightarrow> exn \<Rightarrow> string" where
  "find_package_except H method_name (HttpError status msg) =
     (if status = 404 then ''  '' @ cross_mark @ '' '' @ method_name @ '': Package not found''
      else ''  '' @ warning_sign @ ''  '' @ method_name @ '': '' @
           str_exc H (HttpError status msg))"
| "find_package_except H method_name e =
     ''  '' @ warning_sign @ ''  '' @ method_name @ '': '' @ str_exc H e"

text \<open>
  The inner loop over the methods, for one package name. The result is whether the loop
  left through \<open>break\<close>, after \<open>found_packages.append(package_name)\<close>.
\<close>

fun try_methods ::
  "host \<Rightarrow> 's remote \<Rightarrow> (string \<times> (string \<Rightarrow> call)) list \<Rightarrow> string \<Rightarrow> 's \<Rightarrow>
   bool \<times> event list \<times> 's" where
  "try_methods H R [] p s = (False, [], s)"
| "try_methods H R ((method_name, method_func) # ms) p s =
     (case R (method_func p) s of
        (Inr result, s') \<Rightarrow>
          (True,
           [Call (method_func p) (Inr result),
            Print (''  '' @ check_mark @ '' '' @ method_name @ '' succeeded!''),
            Print (''  Result: '' @ take 200 (json_dumps H result) @ ''...'')], s')
      | (Inl e, s') \<Rightarrow>
          (case try_methods H R ms p s' of
             (b, es, s'') \<Rightarrow>
               (b, Call (method_func p) (Inl e) # Print (find_package_except H method_name e) # es,
                s'')))"

text \<open>The outer loop, with \<open>found_packages\<close> as it stands on entry.\<close>

fun find_package_loop ::
  "host \<Rightarrow> 's remote \<Rightarrow> string list \<Rightarrow> string list \<Rightarrow> 's \<Rightarrow>
   string list \<times> event list \<times> 's" where
  "find_package_loop H R [] found_packages s = (found_packages, [], s)"
| "find_package_loop H R (p # ps) found_packages s =
     (case try_methods H R methods p s of
        (b, es, s') \<Rightarrow>
          (case find_package_loop H R ps (if b then found_packages @ [p] else found_packages) s' of
             (found, es', s'') \<Rightarrow>
               (found, Print (newline @ ''Testing package: '' @ p) # es @ es', s'')))"

definition list_available_apps_with ::
  "string list \<Rightarrow> host \<Rightarrow> 's remote \<Rightarrow> 's \<Rightarrow> (exn + string option) \<times> event list \<times> 's" where
  "list_available_apps_with patterns H R s =
     (case load_service H measurebowl_credentials of
        Inl e \<Rightarrow> (Inl e, [], s)
      | Inr cr \<Rightarrow>
          (case find_package_loop H R patterns [] s of
             (found_packages, es, s') \<Rightarrow>
               (if found_packages \<noteq> [] then
                  (Inr (Some (hd found_packages)),
                   [Print (''Service account: '' @ service_account_email cr),
                    Print ''Testing different approaches to find apps...''] @ es @
                   [Print (newline @ party_popper @ '' Found accessible packages: '' @
                           str_list H found_packages)], s')
                else
                  (Inr None,
                   [Print (''Service account: '' @ service_account_email cr),
                    Print ''Testing different approaches to find apps...''] @ es @
                   [Print (newline @ cross_mark @ '' No accessible packages found'')], s'))))"

definition list_available_apps ::
  "host \<Rightarrow> 's remote \<Rightarrow> 's \<Rightarrow> (exn + string option) \<times> event list \<times> 's" where
  "list_available_apps = list_available_apps_with package_patterns"

section \<open>publish_release.py\<close>

definition package_names :: "string list" where
  "package_names =
     [''com.example.measurebowl'',
      ''com.dojo.measurebowl'',
      ''com.measurebowl.app'',
      ''com.measurebowl'',
      ''com.lawnbowls.measurebowl'']"

text \<open>
  The condition \<open>'edits' in edits_response and edits_response['edits']\<close>: \<open>Inr (Some v)\<close> when
  it holds, with \<open>v\<close> the value under \<open>'edits'\<close>; \<open>Inr None\<close> when it does not; \<open>Inl\<close> when
  evaluating it raises.
\<close>

definition has_edits :: "json \<Rightarrow> exn + json option" where
  "has_edits edits_response =
     (case py_in ''edits'' edits_response of
        Inl e \<Rightarrow> Inl e
      | Inr False \<Rightarrow> Inr None
      | Inr True \<Rightarrow>
          (case py_getitem_str edits_response ''edits'' of
             Inl e \<Rightarrow> Inl e
           | Inr v \<Rightarrow> Inr (if py_bool v then Some v else None)))"

text \<open>
  The branch taken when the condition holds, from \<open>print(f"Found existing edits ...")\<close> to
  \<open>return True\<close>. \<open>Inr\<close> is the \<open>return True\<close>.
\<close>

definition commit_latest ::
  "host \<Rightarrow> 's remote \<Rightarrow> string \<Rightarrow> json \<Rightarrow> 's \<Rightarrow> (exn + bool) \<times> event list \<times> 's" where
  "commit_latest H R p edits s =
     (case py_getitem_int edits 0 of
        Inl e \<Rightarrow> (Inl e, [Print (''Found existing edits for '' @ p)], s)
      | Inr latest_edit \<Rightarrow>
          (case py_getitem_str latest_edit ''id'' of
             Inl e \<Rightarrow> (Inl e, [Print (''Found existing edits for '' @ p)], s)
           | Inr edit_id \<Rightarrow>
               (case R (EditsCommit edit_id p) s of
                  (Inl e, s') \<Rightarrow>
                    (Inl e,
                     [Print (''Found existing edits for '' @ p),
                      Print (''Latest edit ID: '' @ str_val H edit_id),
                      Call (EditsCommit edit_id p) (Inl e)], s')
                | (Inr commit_response, s') \<Rightarrow>
                    (Inr True,
                     [Print (''Found existing edits for '' @ p),
                      Print (''Latest edit ID: '' @ str_val H edit_id),
                      Call (EditsCommit edit_id p) (Inr commit_response),
                      Print (check_mark @ '' SUCCESS! Published release for '' @ p),
                      Print (''Commit response: '' @ str_val H commit_response)], s'))))"

text \<open>
  The body of the \<open>try\<close>: \<open>Inr (Some True)\<close> is the \<open>return True\<close>, \<open>Inr None\<close> the end of the
  body with no \<open>return\<close>, \<open>Inl\<close> an exception raised.
\<close>

definition publish_try ::
  "host \<Rightarrow> 's remote \<Rightarrow> string \<Rightarrow> 's \<Rightarrow> (exn + bool option) \<times> event list \<times> 's" where
  "publish_try H R p s =
     (case R (EditsList p) s of
        (Inl e, s') \<Rightarrow> (Inl e, [Call (EditsList p) (Inl e)], s')
      | (Inr edits_response, s') \<Rightarrow>
          (case has_edits edits_response of
             Inl e \<Rightarrow> (Inl e, [Call (EditsList p) (Inr edits_response)], s')
           | Inr None \<Rightarrow>
               (Inr None,
                [Call (EditsList p) (Inr edits_response),
                 Print (''No existing edits found for '' @ p)], s')
           | Inr (Some edits) \<Rightarrow>
               (case commit_latest H R p edits s' of
                  (Inl e, es, s'') \<Rightarrow> (Inl e, Call (EditsList p) (Inr edits_response) # es, s'')
                | (Inr b, es, s'') \<Rightarrow>
                    (Inr (Some b), Call (EditsList p) (Inr edits_response) # es, s''))))"

text \<open>The two handlers: \<open>except HttpError\<close>, then \<open>except Exception\<close>.\<close>

fun publish_except :: "host \<Rightarrow> string \<Rightarrow> exn \<Rightarrow> string" where
  "publish_except H p (HttpError status msg) =
     (if status = 404 then ''Package '' @ p @ '' not found''
      else ''Error with '' @ p @ '': '' @ str_exc H (HttpError status msg))"
| "publish_except H p e = ''Error with '' @ p @ '': '' @ str_exc H e"

text \<open>The loop: \<open>Some b\<close> is a \<open>return b\<close> from inside it, \<open>None\<close> its end.\<close>

fun publish_loop ::
  "host \<Rightarrow> 's remote \<Rightarrow> string list \<Rightarrow> 's \<Rightarrow> bool option \<times> event list \<times> 's" where
  "publish_loop H R [] s = (None, [], s)"
| "publish_loop H R (p # ps) s =
     (case publish_try H R p s of
        (Inr (Some b), es, s') \<Rightarrow> (Some b, Print (newline @ ''Trying package: '' @ p) # es, s')
      | (Inr None, es, s') \<Rightarrow>
          (case publish_loop H R ps s' of
             (r, es', s'') \<Rightarrow> (r, Print (newline @ ''Trying package: '' @ p) # es @ es', s''))
      | (Inl e, es, s') \<Rightarrow>
          (case publish_loop H R ps s' of
             (r, es', s'') \<Rightarrow>
               (r, Print (newline @ ''Trying package: '' @ p) # es @
                   Print (publish_except H p e) # es', s'')))"

definition publish_existing_release_with ::
  "string list \<Rightarrow> host \<Rightarrow> 's remote \<Rightarrow> 's \<Rightarrow> (exn + bool) \<times> event list \<times> 's" where
  "publish_existing_release_with names H R s =
     (case load_service H measurebowl_credentials of
        Inl e \<Rightarrow> (Inl e, [], s)
      | Inr cr \<Rightarrow>
          (case publish_loop H R names s of
             (Some b, es, s') \<Rightarrow> (Inr b, es, s')
           | (None, es, s') \<Rightarrow>
               (Inr False,
                es @ [Print (newline @ cross_mark @ '' No existing releases found to publish'')],
                s')))"

definition publish_existing_release ::
  "host \<Rightarrow> 's remote \<Rightarrow> 's \<Rightarrow> (exn + bool) \<times> event list \<times> 's" where
  "publish_existing_release = publish_existing_release_with package_names"

section \<open>add_service_account.py\<close>

definition credentials_path :: string where
  "credentials_path = ''../../fastlane/play-console-credentials.json''"

definition service_account_email_literal :: string where
  "service_account_email_literal = ''play-console-uploader@dojo-pool.iam.gserviceaccount.com''"

definition package_name :: string where
  "package_name = ''com.dojo.measurebowl''"

text \<open>The lines printed when the status is 403.\<close>

definition remediation :: "string list" where
  "remediation =
     [cross_mark @ '' Service account doesn'' @ quote @ ''t have access to this app.'',
      newline @ ''To fix this:'',
      ''1. Go to https://play.google.com/console/'',
      ''2. Navigate to Setup > API access'',
      ''3. Find '' @ quote @ ''Service accounts'' @ quote @ '' section'',
      ''4. Click '' @ quote @ ''Link service account'' @ quote,
      ''5. Enter: '' @ service_account_email_literal,
      ''6. Grant permissions:'',
      ''   - '' @ check_mark @ '' Release apps to testing tracks'',
      ''   - '' @ check_mark @ '' View app information and download bulk reports'',
      ''7. Click '' @ quote @ ''Invite user'' @ quote]"

text \<open>
  The inner \<open>try\<close> with its one handler, \<open>except HttpError\<close>: \<open>Inr b\<close> is a \<open>return b\<close>, \<open>Inl\<close>
  an exception the handler does not catch.
\<close>

definition test_access ::
  "host \<Rightarrow> 's remote \<Rightarrow> 's \<Rightarrow> (exn + bool) \<times> event list \<times> 's" where
  "test_access H R s =
     (case R (EditsGet package_name) s of
        (Inr app_info, s') \<Rightarrow>
          (Inr True,
           [Call (EditsGet package_name) (Inr app_info),
            Print (check_mark @ '' Service account has access to the app!'')], s')
      | (Inl (HttpError status msg), s') \<Rightarrow>
          (Inr False,
           Call (EditsGet package_name) (Inl (HttpError status msg)) #
           map Print
             (if status = 404 then
                [cross_mark @ '' App with package name '' @ quote @ package_name @ quote @
                 '' not found.'',
                 ''Please verify the package name matches what you created in Google Play Console.'']
              else if status = 403 then remediation
              else [cross_mark @ '' Error: '' @ str_exc H (HttpError status msg)]), s')
      | (Inl e, s') \<Rightarrow> (Inl e, [Call (EditsGet package_name) (Inl e)], s'))"

definition add_service_account_to_play_console ::
  "host \<Rightarrow> 's remote \<Rightarrow> 's \<Rightarrow> (exn + bool) \<times> event list \<times> 's" where
  "add_service_account_to_play_console H R s =
     (if \<not> os_path_exists H credentials_path then
        (Inr False, [Print (''Error: Credentials file not found at '' @ credentials_path)], s)
      else
        (case load_service H credentials_path of
           Inl e \<Rightarrow> (Inl e, [], s)
         | Inr cr \<Rightarrow>
             (case test_access H R s of
                (Inr b, es, s') \<Rightarrow>
                  (Inr b,
                   [Print (''Attempting to add service account: '' @ service_account_email_literal),
                    Print (''To package: '' @ package_name),
                    Print (newline @ ''Testing service account access...'')] @ es, s')
              | (Inl e, es, s') \<Rightarrow>
                  (Inr False,
                   [Print (''Attempting to add service account: '' @ service_account_email_literal),
                    Print (''To package: '' @ package_name),
                    Print (newline @ ''Testing service account access...'')] @ es @
                   [Print (''Unexpected error: '' @ str_exc H e)], s'))))"

section \<open>Hosts and services for the examples\<close>

text \<open>
  A host on which the credentials load and the client builds, and services that answer in
  a fixed way: the same to every call, by the call alone, or from a list of responses in
  the order of the calls.
\<close>

definition plain_host :: host where
  "plain_host =
     \<lparr>os_path_exists = (\<lambda>path. True),
      from_service_account_file =
        (\<lambda>path. Inr \<lparr>service_account_email = ''uploader@example.iam''\<rparr>),
      build = (\<lambda>cr. Inr ()),
      str_exc = (\<lambda>e. case e of HttpError status msg \<Rightarrow> msg
                         | OtherException msg \<Rightarrow> msg
                         | _ \<Rightarrow> ''error''),
      str_val = (\<lambda>v. case v of JStr s \<Rightarrow> s | _ \<Rightarrow> ''value''),
      str_list = concat,
      json_dumps = (\<lambda>v. ''{}'')\<rparr>"

definition answering :: "(call \<Rightarrow> response) \<Rightarrow> 's remote" where
  "answering f c s = (f c, s)"

definition scripted :: "response list \<Rightarrow> nat remote" where
  "scripted rs c n =
     (if n < length rs then rs ! n else Inl (OtherException ''StopIteration''), Suc n)"

definition not_found :: response where
  "not_found = Inl (HttpError 404 ''Not Found'')"

definition forbidden :: response where
  "forbidden = Inl (HttpError 403 ''Forbidden'')"

definition server_error :: response where
  "server_error = Inl (HttpError 500 ''Internal Server Error'')"

definition one_edit :: json where
  "one_edit = JObj [(''edits'', JArr [JObj [(''id'', JStr ''7'')]])]"

definition new_edit :: json where
  "new_edit = JObj [(''id'', JStr ''42''), (''expiryTimeSeconds'', JStr ''1700000000'')]"

text \<open>The response the scripts read as "not found": an \<open>HttpError\<close> whose status is 404.\<close>

definition is_not_found :: "response \<Rightarrow> bool" where
  "is_not_found r = (case r of Inl (HttpError status msg) \<Rightarrow> status = 404 | _ \<Rightarrow> False)"

section \<open>Reading a run\<close>

lemma stdout_append: "stdout (a @ b) = stdout a @ stdout b"
  by (induction a rule: stdout.induct) auto

lemma trace_append: "trace (a @ b) = trace a @ trace b"
  by (induction a rule: trace.induct) auto

lemma calls_append: "calls (a @ b) = calls a @ calls b"
  by (simp add: calls_def trace_append)

lemma responses_append: "responses (a @ b) = responses a @ responses b"
  by (simp add: responses_def trace_append)

lemma plain_load:
  "load_service plain_host path = Inr \<lparr>service_account_email = ''uploader@example.iam''\<rparr>"
  by (simp add: load_service_def plain_host_def)

section \<open>A missing credentials file\<close>

text \<open>
  C5. When \<open>os.path.exists\<close> is false of the hard-coded path, the script of
  \<open>add_service_account.py\<close> prints the one error line and returns \<open>False\<close>; no remote call is
  made, and the remote service is left as it was.
\<close>

theorem missing_credentials_file_stops:
  assumes "\<not> os_path_exists H credentials_path"
  shows "add_service_account_to_play_console H R s =
           (Inr False, [Print (''Error: Credentials file not found at '' @ credentials_path)], s)
         \<and> calls (fst (snd (add_service_account_to_play_console H R s))) = []"
  using assms by (simp add: add_service_account_to_play_console_def calls_def)

theorem missing_credentials_file_stops_witness:
  "\<not> os_path_exists (plain_host\<lparr>os_path_exists := (\<lambda>path. False)\<rparr>) credentials_path
   \<and> add_service_account_to_play_console (plain_host\<lparr>os_path_exists := (\<lambda>path. False)\<rparr>)
       (answering (\<lambda>c. Inr JNull)) () =
     (Inr False,
      [Print ''Error: Credentials file not found at ../../fastlane/play-console-credentials.json''],
      ())
   \<and> calls (fst (snd (add_service_account_to_play_console
        (plain_host\<lparr>os_path_exists := (\<lambda>path. False)\<rparr>) (answering (\<lambda>c. Inr JNull)) ()))) = []"
  using missing_credentials_file_stops
    [of "plain_host\<lparr>os_path_exists := (\<lambda>path. False)\<rparr>" "answering (\<lambda>c. Inr JNull)" "()"]
  by (simp add: credentials_path_def calls_def)

section \<open>What the probes return\<close>

lemma test_package_loop_result:
  "test_package_loop H R ps s = (Some name, es, s') \<Longrightarrow> name \<in> set ps"
proof (induction ps arbitrary: s es s')
  case Nil
  then show ?case by simp
next
  case (Cons p ps)
  then show ?case
    by (auto simp: test_package_try_def split: prod.splits sum.splits)
qed

lemma find_package_loop_found:
  "find_package_loop H R ps found s = (found', es, s') \<Longrightarrow> set found' \<subseteq> set found \<union> set ps"
proof (induction ps arbitrary: found s es s' found')
  case Nil
  then show ?case by simp
next
  case (Cons p ps)
  then show ?case
    by (fastforce split: prod.splits if_splits)
qed

text \<open>
  C10. Whatever the remote service answers, a value returned by \<open>list_available_apps\<close> is
  \<open>None\<close> or one of the names of \<open>package_patterns\<close>, and a value returned by
  \<open>test_package_variations\<close> is \<open>None\<close> or one of the names of \<open>package_variations\<close>.
\<close>

theorem returned_name_is_a_candidate:
  "(list_available_apps H R s = (Inr v, es, s') \<longrightarrow>
      v = None \<or> (\<exists>p \<in> set package_patterns. v = Some p))
   \<and> (test_package_variations H R t = (Inr w, es', t') \<longrightarrow>
      w = None \<or> (\<exists>p \<in> set package_variations. w = Some p))"
proof (intro conjI impI)
  assume a: "list_available_apps H R s = (Inr v, es, s')"
  show "v = None \<or> (\<exists>p \<in> set package_patterns. v = Some p)"
  proof (cases "load_service H measurebowl_credentials")
    case (Inl e)
    with a show ?thesis
      by (simp add: list_available_apps_def list_available_apps_with_def)
  next
    case (Inr cr)
    obtain found fes fs where f: "find_package_loop H R package_patterns [] s = (found, fes, fs)"
      by (cases "find_package_loop H R package_patterns [] s") auto
    from find_package_loop_found [OF f] have sub: "set found \<subseteq> set package_patterns" by simp
    show ?thesis
    proof (cases "found = []")
      case True
      with a Inr f show ?thesis
        by (simp add: list_available_apps_def list_available_apps_with_def)
    next
      case False
      then have "hd found \<in> set found" by simp
      with sub have "hd found \<in> set package_patterns" by blast
      moreover from a Inr f False have "v = Some (hd found)"
        by (auto simp: list_available_apps_def list_available_apps_with_def)
      ultimately show ?thesis by blast
    qed
  qed
next
  assume a: "test_package_variations H R t = (Inr w, es', t')"
  show "w = None \<or> (\<exists>p \<in> set package_variations. w = Some p)"
  proof (cases "load_service H measurebowl_credentials")
    case (Inl e)
    with a show ?thesis
      by (simp add: test_package_variations_def test_package_variations_with_def)
  next
    case (Inr cr)
    obtain r les ls where l: "test_package_loop H R package_variations t = (r, les, ls)"
      by (cases "test_package_loop H R package_variations t") auto
    show ?thesis
    proof (cases r)
      case None
      with a Inr l show ?thesis
        by (simp add: test_package_variations_def test_package_variations_with_def)
    next
      case (Some name)
      with l have "name \<in> set package_variations" by (auto dest: test_package_loop_result)
      moreover from a Inr l Some have "w = Some name"
        by (auto simp: test_package_variations_def test_package_variations_with_def)
      ultimately show ?thesis by blast
    qed
  qed
qed

theorem returned_name_is_a_candidate_witness:
  "fst (list_available_apps plain_host
      (answering (\<lambda>c. if c = EditsInsert ''com.dojo.measurebowl'' then Inr new_edit else not_found)) ())
     = Inr (Some ''com.dojo.measurebowl'')
   \<and> ''com.dojo.measurebowl'' \<in> set package_patterns
   \<and> fst (test_package_variations plain_host
      (answering (\<lambda>c. if c = EditsInsert ''com.dojo.measurebowl'' then Inr new_edit else not_found)) ())
     = Inr (Some ''com.dojo.measurebowl'')
   \<and> ''com.dojo.measurebowl'' \<in> set package_variations"
  using returned_name_is_a_candidate
    [where H = plain_host
       and R = "answering (\<lambda>c. if c = EditsInsert ''com.dojo.measurebowl'' then Inr new_edit else not_found)"
       and s = "()" and t = "()" and v = "Some ''com.dojo.measurebowl''"
       and w = "Some ''com.dojo.measurebowl''"]
  by (simp add: list_available_apps_def list_available_apps_with_def package_patterns_def
      methods_def answering_def not_found_def plain_load test_package_variations_def
      test_package_variations_with_def package_variations_def test_package_try_def new_edit_def)

section \<open>When nothing is found\<close>

lemma is_not_found_isl: "is_not_found r \<Longrightarrow> isl r"
  by (auto simp: is_not_found_def split: sum.splits)

lemma test_package_loop_all_fail:
  "(\<And>p s. p \<in> set ps \<Longrightarrow> isl (fst (R (EditsInsert p) s))) \<Longrightarrow>
   fst (test_package_loop H R ps s) = None"
proof (induction ps arbitrary: s)
  case Nil
  then show ?case by simp
next
  case (Cons p ps)
  obtain r s1 where r: "R (EditsInsert p) s = (r, s1)" by (cases "R (EditsInsert p) s") auto
  from Cons.prems [of p s] r obtain e where e: "r = Inl e" by (cases r) auto
  obtain r' es' s2 where l: "test_package_loop H R ps s1 = (r', es', s2)"
    by (cases "test_package_loop H R ps s1") auto
  have "fst (test_package_loop H R ps s1) = None" by (rule Cons.IH) (simp add: Cons.prems)
  with l have "r' = None" by simp
  with r e l show ?case
    by (simp add: test_package_try_def)
qed

lemma try_methods_all_fail:
  "(\<And>n f s. (n, f) \<in> set ms \<Longrightarrow> isl (fst (R (f p) s))) \<Longrightarrow>
   fst (try_methods H R ms p s) = False"
proof (induction ms arbitrary: s)
  case Nil
  then show ?case by simp
next
  case (Cons m ms)
  obtain n f where m: "m = (n, f)" by (cases m) auto
  obtain r s1 where r: "R (f p) s = (r, s1)" by (cases "R (f p) s") auto
  from Cons.prems [of n f s] m r obtain e where e: "r = Inl e" by (cases r) auto
  obtain b es' s2 where l: "try_methods H R ms p s1 = (b, es', s2)"
    by (cases "try_methods H R ms p s1") auto
  have "fst (try_methods H R ms p s1) = False"
  proof (rule Cons.IH)
    fix n' f' s' assume "(n', f') \<in> set ms"
    then show "isl (fst (R (f' p) s'))" using Cons.prems [of n' f' s'] by simp
  qed
  with l have "\<not> b" by simp
  with m r e l show ?case by simp
qed

lemma find_package_loop_all_fail:
  "(\<And>p n f s. p \<in> set ps \<Longrightarrow> (n, f) \<in> set methods \<Longrightarrow> isl (fst (R (f p) s))) \<Longrightarrow>
   fst (find_package_loop H R ps found s) = found"
proof (induction ps arbitrary: s found)
  case Nil
  then show ?case by simp
next
  case (Cons p ps)
  obtain b es1 s1 where t: "try_methods H R methods p s = (b, es1, s1)"
    by (cases "try_methods H R methods p s") auto
  have "fst (try_methods H R methods p s) = False"
  proof (rule try_methods_all_fail)
    fix n f s' assume "(n, f) \<in> set methods"
    then show "isl (fst (R (f p) s'))" using Cons.prems [of p n f s'] by simp
  qed
  with t have b: "\<not> b" by simp
  obtain found' es2 s2 where l: "find_package_loop H R ps found s1 = (found', es2, s2)"
    by (cases "find_package_loop H R ps found s1") auto
  have "fst (find_package_loop H R ps found s1) = found"
  proof (rule Cons.IH)
    fix q n f s' assume "q \<in> set ps" "(n, f) \<in> set methods"
    then show "isl (fst (R (f q) s'))" using Cons.prems [of q n f s'] by simp
  qed
  with l have "found' = found" by simp
  with t b l show ?case by simp
qed

lemma publish_loop_all_fail:
  "(\<And>p s. p \<in> set ps \<Longrightarrow> isl (fst (R (EditsList p) s))) \<Longrightarrow>
   fst (publish_loop H R ps s) = None"
proof (induction ps arbitrary: s)
  case Nil
  then show ?case by simp
next
  case (Cons p ps)
  obtain r s1 where r: "R (EditsList p) s = (r, s1)" by (cases "R (EditsList p) s") auto
  from Cons.prems [of p s] r obtain e where e: "r = Inl e" by (cases r) auto
  obtain r' es' s2 where l: "publish_loop H R ps s1 = (r', es', s2)"
    by (cases "publish_loop H R ps s1") auto
  have "fst (publish_loop H R ps s1) = None" by (rule Cons.IH) (simp add: Cons.prems)
  with l have "r' = None" by simp
  with r e l show ?case
    by (simp add: publish_try_def)
qed

text \<open>
  C4. When the credentials load and every probe call on a candidate is answered with
  status 404, \<open>list_available_apps\<close> and \<open>test_package_variations\<close> return \<open>None\<close> and
  \<open>publish_existing_release\<close> returns \<open>False\<close>, each after printing its closing report that
  nothing was found. Stated for any list of candidates in place of the hard-coded one.
\<close>

theorem all_not_found_reports_nothing:
  assumes load: "load_service H measurebowl_credentials = Inr cr"
  shows "((\<forall>p \<in> set patterns. \<forall>m \<in> set methods. \<forall>s. is_not_found (fst (R (snd m p) s))) \<longrightarrow>
            fst (list_available_apps_with patterns H R s) = Inr None
            \<and> suffix [newline @ cross_mark @ '' No accessible packages found'']
                (stdout (fst (snd (list_available_apps_with patterns H R s)))))
       \<and> ((\<forall>p \<in> set variations. \<forall>s. is_not_found (fst (R (EditsInsert p) s))) \<longrightarrow>
            fst (test_package_variations_with variations H R s) = Inr None
            \<and> suffix [newline @ cross_mark @ '' None of the common variations were found.'',
                       ''You'' @ quote @ ''ll need to check the exact package name in Google Play Console.'']
                (stdout (fst (snd (test_package_variations_with variations H R s)))))
       \<and> ((\<forall>p \<in> set names. \<forall>s. is_not_found (fst (R (EditsList p) s))) \<longrightarrow>
            fst (publish_existing_release_with names H R s) = Inr False
            \<and> suffix [newline @ cross_mark @ '' No existing releases found to publish'']
                (stdout (fst (snd (publish_existing_release_with names H R s)))))"
proof (intro conjI impI)
  assume a: "\<forall>p \<in> set patterns. \<forall>m \<in> set methods. \<forall>s. is_not_found (fst (R (snd m p) s))"
  have "fst (find_package_loop H R patterns [] s) = []"
    by (rule find_package_loop_all_fail) (use a in \<open>force dest: is_not_found_isl\<close>)
  then obtain es s' where f: "find_package_loop H R patterns [] s = ([], es, s')"
    by (cases "find_package_loop H R patterns [] s") auto
  from load f show "fst (list_available_apps_with patterns H R s) = Inr None"
    by (simp add: list_available_apps_with_def)
  from load f show "suffix [newline @ cross_mark @ '' No accessible packages found'']
      (stdout (fst (snd (list_available_apps_with patterns H R s))))"
    by (simp add: list_available_apps_with_def stdout_append suffix_def)
next
  assume a: "\<forall>p \<in> set variations. \<forall>s. is_not_found (fst (R (EditsInsert p) s))"
  have "fst (test_package_loop H R variations s) = None"
    by (rule test_package_loop_all_fail) (use a in \<open>force dest: is_not_found_isl\<close>)
  then obtain es s' where f: "test_package_loop H R variations s = (None, es, s')"
    by (cases "test_package_loop H R variations s") auto
  from load f show "fst (test_package_variations_with variations H R s) = Inr None"
    by (simp add: test_package_variations_with_def)
  from load f show "suffix [newline @ cross_mark @ '' None of the common variations were found.'',
                       ''You'' @ quote @ ''ll need to check the exact package name in Google Play Console.'']
                (stdout (fst (snd (test_package_variations_with variations H R s))))"
    by (simp add: test_package_variations_with_def stdout_append suffix_def)
next
  assume a: "\<forall>p \<in> set names. \<forall>s. is_not_found (fst (R (EditsList p) s))"
  have "fst (publish_loop H R names s) = None"
    by (rule publish_loop_all_fail) (use a in \<open>force dest: is_not_found_isl\<close>)
  then obtain es s' where f: "publish_loop H R names s = (None, es, s')"
    by (cases "publish_loop H R names s") auto
  from load f show "fst (publish_existing_release_with names H R s) = Inr False"
    by (simp add: publish_existing_release_with_def)
  from load f show "suffix [newline @ cross_mark @ '' No existing releases found to publish'']
                (stdout (fst (snd (publish_existing_release_with names H R s))))"
    by (simp add: publish_existing_release_with_def stdout_append suffix_def)
qed


theorem all_not_found_reports_nothing_witness:
  "load_service plain_host measurebowl_credentials =
     Inr \<lparr>service_account_email = ''uploader@example.iam''\<rparr>
   \<and> is_not_found not_found
   \<and> fst (list_available_apps plain_host (answering (\<lambda>c. not_found)) ()) = Inr None
   \<and> fst (test_package_variations plain_host (answering (\<lambda>c. not_found)) ()) = Inr None
   \<and> fst (publish_existing_release plain_host (answering (\<lambda>c. not_found)) ()) = Inr False
   \<and> suffix [newline @ cross_mark @ '' No existing releases found to publish'']
       (stdout (fst (snd (publish_existing_release plain_host (answering (\<lambda>c. not_found)) ()))))"
  using all_not_found_reports_nothing
    [where H = plain_host and R = "answering (\<lambda>c. not_found)" and s = "()"
       and cr = "\<lparr>service_account_email = ''uploader@example.iam''\<rparr>"
       and patterns = package_patterns and variations = package_variations
       and names = package_names]
  by (simp add: plain_load is_not_found_def answering_def not_found_def list_available_apps_def
      test_package_variations_def publish_existing_release_def)

end
